theory Spec2Isabelle
  imports Complex_Main
begin

section \<open>Conjugate compound distributions of numpyro\<close>

text \<open>
  The development embeds \<^verbatim>\<open>numpyro/distributions/conjugate.py\<close>. Densities,
  moments and sampling act elementwise over the batch axes, so for them one batch element
  is modelled: a parameter is a \<^typ>\<open>real\<close>, the category axis of the
  Dirichlet-multinomial is a \<^typ>\<open>real list\<close>. Arithmetic is exact real arithmetic.
  The constructors are modelled apart, on the shapes of their arguments.

  \<^verbatim>\<open>gammaln\<close> and \<open>betaln\<close> come from \<^verbatim>\<open>jax.scipy.special\<close>; they are parameters
  of every function that calls them, and a theorem that needs a fact about them states it
  as a hypothesis.
\<close>

subsection \<open>Errors\<close>

datatype error = ValidationFailure | AssertionError | ValueError

subsection \<open>Array elements\<close>

text \<open>
  An array element of the floating-point type: a finite value, an infinity or not-a-number.
  The densities compute with reals; the infinities enter where the program puts them.
\<close>

datatype fnum = Finite (finite_value: real) | PosInf | NegInf | NaN

subsection \<open>Special functions\<close>

type_synonym gammaln_fn = "real \<Rightarrow> real"
type_synonym betaln_fn = "real \<Rightarrow> real \<Rightarrow> real"

text \<open>
  \<^verbatim>\<open>
  def _log_beta_1(alpha, value):
      return gammaln(1 + value) + gammaln(alpha) - gammaln(value + alpha)
  \<close>
\<close>

definition log_beta_1 :: "gammaln_fn \<Rightarrow> real \<Rightarrow> real \<Rightarrow> real" where
  "log_beta_1 gammaln alpha val = gammaln (1 + val) + gammaln alpha - gammaln (val + alpha)"

text \<open>
  The specification's count-normalisation term, written from its words:
  \<open>logBetaCount(\<alpha>, v) = log\<Gamma>(1+v) + log\<Gamma>(\<alpha>) - log\<Gamma>(v+\<alpha>)\<close>.
\<close>

definition logBetaCount :: "gammaln_fn \<Rightarrow> real \<Rightarrow> real \<Rightarrow> real" where
  "logBetaCount logGamma a v = logGamma (1 + v) + logGamma a - logGamma (v + a)"

text \<open>
  What the theorems on probabilities assume of the special functions: the functional
  equation of the logarithm of the Gamma function on the positive reals, with
  \<open>log\<Gamma>(1) = 0\<close>, and the log-Beta function expressed through it.
\<close>

definition log_gamma_eqn :: "gammaln_fn \<Rightarrow> bool" where
  "log_gamma_eqn gammaln \<longleftrightarrow>
     gammaln 1 = 0 \<and> (\<forall>x. 0 < x \<longrightarrow> gammaln (x + 1) = ln x + gammaln x)"

definition log_beta_eqn :: "gammaln_fn \<Rightarrow> betaln_fn \<Rightarrow> bool" where
  "log_beta_eqn gammaln betaln \<longleftrightarrow>
     (\<forall>a b. 0 < a \<and> 0 < b \<longrightarrow> betaln a b = gammaln a + gammaln b - gammaln (a + b))"

text \<open>
  A function on the reals that satisfies the functional equation: zero on \<open>(0, 1]\<close>,
  continued to the right by the equation itself. At the positive integers it is
  \<open>ln ((k - 1)!)\<close>, as the logarithm of the Gamma function is.
\<close>

function step_log_gamma :: "real \<Rightarrow> real" where
  "step_log_gamma x = (if x \<le> 1 then 0 else ln (x - 1) + step_log_gamma (x - 1))"
  by pat_completeness auto
termination
proof (relation "measure (\<lambda>x. nat \<lceil>x\<rceil>)")
  show "wf (measure (\<lambda>x::real. nat \<lceil>x\<rceil>))" by simp
next
  fix x :: real
  assume "\<not> x \<le> 1"
  then have "\<lceil>x - 1\<rceil> < \<lceil>x\<rceil>" and "0 < \<lceil>x\<rceil>" by linarith+
  then show "(x - 1, x) \<in> measure (\<lambda>x. nat \<lceil>x\<rceil>)" by simp
qed

declare step_log_gamma.simps [simp del]

definition step_log_beta :: "real \<Rightarrow> real \<Rightarrow> real" where
  "step_log_beta a b = step_log_gamma a + step_log_gamma b - step_log_gamma (a + b)"

subsection \<open>Support constraints and sample validation\<close>

text \<open>
  The module \<^verbatim>\<open>numpyro.distributions.constraints\<close> is not among the source files; the
  three constraints the classes name are written from the specification.
\<close>

text \<open>
  Modelled from the spec: \<^verbatim>\<open>constraints.integer_interval\<close>, missing from the source
  files. The specification: the integer interval \<open>[0, n]\<close>.
\<close>

definition integer_interval :: "real \<Rightarrow> real \<Rightarrow> real \<Rightarrow> bool" where
  "integer_interval lower_bound upper_bound x \<longleftrightarrow>
     x \<in> \<int> \<and> lower_bound \<le> x \<and> x \<le> upper_bound"

text \<open>
  Modelled from the spec: \<^verbatim>\<open>constraints.multinomial\<close>, missing from the source files.
  The specification: the multinomial simplex-count set, the vectors with nonnegative
  entries that sum to \<open>total_count\<close> along the category axis. Membership tests the sign of
  the entries and their sum, not that an entry is a whole number.
\<close>

definition multinomial :: "real \<Rightarrow> real list \<Rightarrow> bool" where
  "multinomial upper_bound x \<longleftrightarrow> (\<forall>v \<in> set x. 0 \<le> v) \<and> sum_list x = upper_bound"

text \<open>
  Modelled from the spec: \<^verbatim>\<open>constraints.nonnegative_integer\<close>, missing from the source
  files. The specification: the nonnegative integers.
\<close>

definition nonnegative_integer :: "real \<Rightarrow> bool" where
  "nonnegative_integer x \<longleftrightarrow> x \<in> \<int> \<and> 0 \<le> x"

text \<open>
  The decorator \<^verbatim>\<open>validate_sample\<close> of \<^verbatim>\<open>numpyro.distributions.util\<close> is not among
  the source files. It evaluates the decorated body first, so an error of the body is
  raised as it is. With validation enabled it then tests the value against the support
  and returns the log-density where the test holds and \<open>-inf\<close> where it fails, with a
  warning and without raising. With validation disabled it returns what the body returns.
  The warning is no part of the returned value and is left out here.
\<close>

definition validate_sample ::
  "bool \<Rightarrow> ('v \<Rightarrow> bool) \<Rightarrow> ('v \<Rightarrow> error + real) \<Rightarrow> 'v \<Rightarrow> error + fnum" where
  "validate_sample validate_args support log_prob_fn val =
     (case log_prob_fn val of
        Inl e \<Rightarrow> Inl e
      | Inr log_prob \<Rightarrow>
          Inr (if validate_args \<and> \<not> support val then NegInf else Finite log_prob))"

subsection \<open>BetaBinomial\<close>

record BetaBinomial =
  bb_concentration1 :: real
  bb_concentration0 :: real
  bb_total_count :: real
  bb_validate_args :: bool

text \<open>
  \<^verbatim>\<open>
  @property
  def support(self):
      return constraints.integer_interval(0, self.total_count)
  \<close>
\<close>

definition BetaBinomial_support :: "BetaBinomial \<Rightarrow> real \<Rightarrow> bool" where
  "BetaBinomial_support self = integer_interval 0 (bb_total_count self)"

text \<open>
  \<^verbatim>\<open>
  @validate_sample
  def log_prob(self, value):
      return (-_log_beta_1(self.total_count - value + 1, value) +
              betaln(value + self.concentration1, self.total_count - value + self.concentration0) -
              betaln(self.concentration0, self.concentration1))
  \<close>
  The undecorated body first, then the method as the decorator wraps it.
\<close>

definition BetaBinomial_log_prob_body ::
  "gammaln_fn \<Rightarrow> betaln_fn \<Rightarrow> BetaBinomial \<Rightarrow> real \<Rightarrow> real" where
  "BetaBinomial_log_prob_body gammaln betaln self val =
     (- log_beta_1 gammaln (bb_total_count self - val + 1) val
      + betaln (val + bb_concentration1 self) (bb_total_count self - val + bb_concentration0 self))
     - betaln (bb_concentration0 self) (bb_concentration1 self)"

definition BetaBinomial_log_prob ::
  "gammaln_fn \<Rightarrow> betaln_fn \<Rightarrow> BetaBinomial \<Rightarrow> real \<Rightarrow> error + fnum" where
  "BetaBinomial_log_prob gammaln betaln self =
     validate_sample (bb_validate_args self) (BetaBinomial_support self)
       (\<lambda>val. Inr (BetaBinomial_log_prob_body gammaln betaln self val))"

text \<open>
  The probability a log-density stands for: the exponential, zero for \<open>-inf\<close>. An error
  stays an error.
\<close>

fun fexp :: "fnum \<Rightarrow> fnum" where
  "fexp (Finite x) = Finite (exp x)"
| "fexp NegInf = Finite 0"
| "fexp PosInf = PosInf"
| "fexp NaN = NaN"

definition prob_of :: "error + fnum \<Rightarrow> error + fnum" where
  "prob_of r = (case r of Inl e \<Rightarrow> Inl e | Inr lp \<Rightarrow> Inr (fexp lp))"

subsection \<open>Pseudo-random keys and the external samplers\<close>

text \<open>
  \<^verbatim>\<open>is_prng_key\<close> and \<^verbatim>\<open>jax.random.split\<close> are primitives of the host framework:
  a record of the two, over an arbitrary type of keys. \<^verbatim>\<open>random.split(key)\<close> is
  \<^verbatim>\<open>random.split(key, 2)\<close>; the number of sub-keys is the second argument here.
  The samplers of the prior and likelihood families are parameters too. Every call of a
  sampler is recorded, with the key it receives, in the order the calls are made.
\<close>

record 'k prng =
  is_prng_key :: "'k \<Rightarrow> bool"
  split :: "'k \<Rightarrow> nat \<Rightarrow> 'k list"





subsection \<open>DirichletMultinomial\<close>

record DirichletMultinomial =
  dm_concentration :: "real list"
  dm_total_count :: real
  dm_validate_args :: bool

text \<open>
  \<^verbatim>\<open>
  @property
  def support(self):
      return constraints.multinomial(self.total_count)
  \<close>
\<close>

definition DirichletMultinomial_support :: "DirichletMultinomial \<Rightarrow> real list \<Rightarrow> bool" where
  "DirichletMultinomial_support self = multinomial (dm_total_count self)"

text \<open>
  The elementwise operations of \<^verbatim>\<open>_log_beta_1(alpha, value)\<close> pair the entries of the two
  category axes by the broadcasting rule of the array library: equal lengths pair up, an
  axis of length one is repeated, any other pair of lengths is a shape error.
\<close>

definition broadcast_categories :: "real list \<Rightarrow> real list \<Rightarrow> error + (real \<times> real) list" where
  "broadcast_categories alpha val =
     (if length alpha = length val then Inr (zip alpha val)
      else if length alpha = 1 then Inr (map (\<lambda>v. (hd alpha, v)) val)
      else if length val = 1 then Inr (map (\<lambda>a. (a, hd val)) alpha)
      else Inl ValueError)"

text \<open>
  \<^verbatim>\<open>
  @validate_sample
  def log_prob(self, value):
      alpha = self.concentration
      return (_log_beta_1(alpha.sum(-1), value.sum(-1)) -
              _log_beta_1(alpha, value).sum(-1))
  \<close>
\<close>

definition DirichletMultinomial_log_prob_body ::
  "gammaln_fn \<Rightarrow> DirichletMultinomial \<Rightarrow> real list \<Rightarrow> error + real" where
  "DirichletMultinomial_log_prob_body gammaln self val =
     (let alpha = dm_concentration self
      in case broadcast_categories alpha val of
           Inl e \<Rightarrow> Inl e
         | Inr pairs \<Rightarrow>
             Inr (log_beta_1 gammaln (sum_list alpha) (sum_list val)
                  - sum_list (map (\<lambda>(a, v). log_beta_1 gammaln a v) pairs)))"

definition DirichletMultinomial_log_prob ::
  "gammaln_fn \<Rightarrow> DirichletMultinomial \<Rightarrow> real list \<Rightarrow> error + fnum" where
  "DirichletMultinomial_log_prob gammaln self =
     validate_sample (dm_validate_args self) (DirichletMultinomial_support self)
       (DirichletMultinomial_log_prob_body gammaln self)"


text \<open>
  The integer compositions of \<open>n\<close> into \<open>k\<close> parts: the values of the multinomial count
  set with \<open>k\<close> categories and \<open>total_count = n\<close>.
\<close>

fun compositions :: "nat \<Rightarrow> nat \<Rightarrow> nat list list" where
  "compositions n 0 = (if n = 0 then [[]] else [])"
| "compositions n (Suc k) =
     concat (map (\<lambda>i. map ((#) i) (compositions (n - i) k)) [0..<Suc n])"

text \<open>
  The weight of a count \<open>k\<close> under a concentration \<open>a\<close>: the rising factorial
  \<open>a (a + 1) \<dots> (a + k - 1)\<close> over \<open>k!\<close>.
\<close>

definition rising_weight :: "real \<Rightarrow> nat \<Rightarrow> real" where
  "rising_weight a k = pochhammer a k / fact k"

subsection \<open>GammaPoisson\<close>

record GammaPoisson =
  gp_concentration :: real
  gp_rate :: real
  gp_validate_args :: bool

text \<open>\<^verbatim>\<open>support = constraints.nonnegative_integer\<close>\<close>

definition GammaPoisson_support :: "GammaPoisson \<Rightarrow> real \<Rightarrow> bool" where
  "GammaPoisson_support self = nonnegative_integer"

text \<open>\<^verbatim>\<open>jnp.log1p\<close> and \<^verbatim>\<open>jnp.square\<close>, in exact arithmetic.\<close>

definition log1p :: "real \<Rightarrow> real" where
  "log1p x = ln (1 + x)"

definition square :: "real \<Rightarrow> real" where
  "square x = x * x"

text \<open>
  \<^verbatim>\<open>
  @validate_sample
  def log_prob(self, value):
      post_value = self.concentration + value
      return -betaln(self.concentration, value + 1) - jnp.log(post_value) + \
          self.concentration * jnp.log(self.rate) - post_value * jnp.log1p(self.rate)
  \<close>
\<close>

definition GammaPoisson_log_prob_body :: "betaln_fn \<Rightarrow> GammaPoisson \<Rightarrow> real \<Rightarrow> real" where
  "GammaPoisson_log_prob_body betaln self val =
     (let post_value = gp_concentration self + val
      in - betaln (gp_concentration self) (val + 1) - ln post_value
         + gp_concentration self * ln (gp_rate self) - post_value * log1p (gp_rate self))"

definition GammaPoisson_log_prob :: "betaln_fn \<Rightarrow> GammaPoisson \<Rightarrow> real \<Rightarrow> error + fnum" where
  "GammaPoisson_log_prob betaln self =
     validate_sample (gp_validate_args self) (GammaPoisson_support self)
       (\<lambda>val. Inr (GammaPoisson_log_prob_body betaln self val))"

text \<open>
  \<^verbatim>\<open>
  @property
  def mean(self):
      return self.concentration / self.rate

  @property
  def variance(self):
      return self.concentration / jnp.square(self.rate) * (1 + self.rate)
  \<close>
\<close>

definition GammaPoisson_mean :: "GammaPoisson \<Rightarrow> real" where
  "GammaPoisson_mean self = gp_concentration self / gp_rate self"

definition GammaPoisson_variance :: "GammaPoisson \<Rightarrow> real" where
  "GammaPoisson_variance self =
     gp_concentration self / square (gp_rate self) * (1 + gp_rate self)"






subsection \<open>Shapes and construction\<close>

text \<open>
  Construction computes with shapes only, so an array argument of a constructor is
  represented by its shape, a list of axis lengths. \<^verbatim>\<open>lax.broadcast_shapes\<close> and
  \<^verbatim>\<open>jnp.broadcast_to\<close> belong to the array library and follow its broadcasting rule:
  shapes are aligned at the last axis, two axis lengths are compatible when they are equal
  or one of them is \<open>1\<close>, and incompatible shapes raise \<^verbatim>\<open>ValueError\<close>.
  \<open>broadcast_rev\<close> works on reversed shapes, last axis first.
\<close>

type_synonym shape = "nat list"

fun broadcast_rev :: "shape \<Rightarrow> shape \<Rightarrow> error + shape" where
  "broadcast_rev [] ys = Inr ys"
| "broadcast_rev (x # xs) [] = Inr (x # xs)"
| "broadcast_rev (x # xs) (y # ys) =
     (case broadcast_rev xs ys of
        Inl e \<Rightarrow> Inl e
      | Inr zs \<Rightarrow> if x = y \<or> y = 1 then Inr (x # zs)
                 else if x = 1 then Inr (y # zs)
                 else Inl ValueError)"

definition broadcast_pair :: "shape \<Rightarrow> shape \<Rightarrow> error + shape" where
  "broadcast_pair s t =
     (case broadcast_rev (rev s) (rev t) of Inl e \<Rightarrow> Inl e | Inr zs \<Rightarrow> Inr (rev zs))"

fun broadcast_shapes :: "shape list \<Rightarrow> error + shape" where
  "broadcast_shapes [] = Inr []"
| "broadcast_shapes (s # ss) =
     (case broadcast_shapes ss of Inl e \<Rightarrow> Inl e | Inr t \<Rightarrow> broadcast_pair s t)"




text \<open>
  Sequencing of steps that may raise.
\<close>

definition and_then :: "error + 'a \<Rightarrow> ('a \<Rightarrow> error + 'b) \<Rightarrow> error + 'b" where
  "and_then r f = (case r of Inl e \<Rightarrow> Inl e | Inr x \<Rightarrow> f x)"












section \<open>Numerical utilities\<close>

subsection \<open>Welford covariance\<close>

text \<open>
  \<^verbatim>\<open>welford_covariance\<close> of \<^verbatim>\<open>numpyro.util\<close> is not among the source files; only its
  test is. Its state and its three functions are written from the specification: the state
  is the count, the mean vector and the moment accumulator, a vector in diagonal mode and a
  matrix otherwise. The mode is fixed when the three functions are made; here the
  constructor of the accumulator carries it from \<open>init\<close> on.
\<close>

datatype accumulator = Diagonal "real list" | Full "real list list"

record welford_state =
  wc_count :: nat
  wc_mean :: "real list"
  wc_m2 :: accumulator

definition outer :: "real list \<Rightarrow> real list \<Rightarrow> real list list" where
  "outer u v = map (\<lambda>a. map (\<lambda>b. a * b) v) u"

definition identity :: "nat \<Rightarrow> real list list" where
  "identity d = map (\<lambda>a. map (\<lambda>b. if a = b then 1 else 0) [0..<d]) [0..<d]"

text \<open>
  Modelled from the spec: \<open>init\<close> of \<^verbatim>\<open>welford_covariance\<close>, missing from the source
  files. The specification: \<open>init(dim)\<close> zeroes count, mean, and the \<open>dim \<times> dim\<close> or
  \<open>dim\<close> moment accumulator depending on the \<open>diagonal\<close> flag.
\<close>

definition welford_init :: "bool \<Rightarrow> nat \<Rightarrow> welford_state" where
  "welford_init diagonal ndim =
     \<lparr>wc_count = 0, wc_mean = replicate ndim 0,
      wc_m2 = (if diagonal then Diagonal (replicate ndim 0)
               else Full (replicate ndim (replicate ndim 0)))\<rparr>"

text \<open>
  Modelled from the spec: \<open>update\<close> of \<^verbatim>\<open>welford_covariance\<close>, missing from the source
  files. The specification: \<open>update(sample, state)\<close> increments the count \<open>n\<close>;
  \<open>delta = sample - mean\<close>; \<open>mean += delta / n\<close>; the accumulator grows by the outer
  product (or the elementwise product) of \<open>delta\<close> and \<open>sample - mean\<close>, with the updated
  mean.
\<close>

definition welford_update :: "real list \<Rightarrow> welford_state \<Rightarrow> welford_state" where
  "welford_update sample state =
     (let n = wc_count state + 1;
          delta = map2 (-) sample (wc_mean state);
          mean = map2 (+) (wc_mean state) (map (\<lambda>d. d / real n) delta);
          post = map2 (-) sample mean
      in \<lparr>wc_count = n, wc_mean = mean,
          wc_m2 = (case wc_m2 state of
                     Diagonal acc \<Rightarrow> Diagonal (map2 (+) acc (map2 (*) delta post))
                   | Full acc \<Rightarrow> Full (map2 (map2 (+)) acc (outer delta post)))\<rparr>)"

text \<open>
  Modelled from the spec: \<open>finalize\<close> of \<^verbatim>\<open>welford_covariance\<close>, missing from the source
  files. The specification: the covariance is the accumulator divided by \<open>n - 1\<close>; if
  \<open>regularize\<close>, it is blended as \<open>cov * n/(n+5) + 1e-3 * (5/(n+5)) * I\<close>, in diagonal
  form with a vector of ones instead of \<open>I\<close>.
\<close>

definition welford_finalize :: "welford_state \<Rightarrow> bool \<Rightarrow> accumulator" where
  "welford_finalize state regularize =
     (let n = real (wc_count state)
      in case wc_m2 state of
           Diagonal acc \<Rightarrow>
             (let cov = map (\<lambda>c. c / (n - 1)) acc
              in Diagonal (if regularize
                           then map (\<lambda>c. c * n / (n + 5) + 1 / 1000 * (5 / (n + 5)) * 1) cov
                           else cov))
         | Full acc \<Rightarrow>
             (let cov = map (map (\<lambda>c. c / (n - 1))) acc
              in Full (if regularize
                       then map2 (map2 (\<lambda>c i. c * n / (n + 5) + 1 / 1000 * (5 / (n + 5)) * i))
                              cov (identity (length (wc_mean state)))
                       else cov)))"

text \<open>
  The run of the test: \<open>init\<close>, then one \<open>update\<close> for each sample in turn.
\<close>

definition welford_run :: "bool \<Rightarrow> nat \<Rightarrow> real list list \<Rightarrow> welford_state" where
  "welford_run diagonal ndim xs = foldl (\<lambda>s x. welford_update x s) (welford_init diagonal ndim) xs"

text \<open>
  The unbiased sample covariance, written from the specification's words: the sum over the
  samples of the products of the deviations from the sample mean, divided by \<open>n - 1\<close>; the
  elementwise squares in diagonal mode; and the regularized blend of either.
\<close>

definition sample_mean :: "real list list \<Rightarrow> nat \<Rightarrow> real" where
  "sample_mean xs a = (\<Sum>x\<leftarrow>xs. x ! a) / real (length xs)"

definition covariance_entry :: "real list list \<Rightarrow> nat \<Rightarrow> nat \<Rightarrow> real" where
  "covariance_entry xs a b =
     (\<Sum>x\<leftarrow>xs. (x ! a - sample_mean xs a) * (x ! b - sample_mean xs b)) / (real (length xs) - 1)"

definition variance_entry :: "real list list \<Rightarrow> nat \<Rightarrow> real" where
  "variance_entry xs a = (\<Sum>x\<leftarrow>xs. (x ! a - sample_mean xs a)\<^sup>2) / (real (length xs) - 1)"

definition sample_covariance :: "nat \<Rightarrow> real list list \<Rightarrow> real list list" where
  "sample_covariance ndim xs = map (\<lambda>a. map (\<lambda>b. covariance_entry xs a b) [0..<ndim]) [0..<ndim]"

definition sample_variance :: "nat \<Rightarrow> real list list \<Rightarrow> real list" where
  "sample_variance ndim xs = map (\<lambda>a. variance_entry xs a) [0..<ndim]"

definition regularized_covariance :: "nat \<Rightarrow> real list list \<Rightarrow> real list list" where
  "regularized_covariance ndim xs =
     (let n = real (length xs)
      in map (\<lambda>a. map (\<lambda>b. covariance_entry xs a b * n / (n + 5)
                              + 1 / 1000 * (5 / (n + 5)) * (if a = b then 1 else 0))
                [0..<ndim]) [0..<ndim])"

definition regularized_variance :: "nat \<Rightarrow> real list list \<Rightarrow> real list" where
  "regularized_variance ndim xs =
     (let n = real (length xs)
      in map (\<lambda>a. variance_entry xs a * n / (n + 5) + 1 / 1000 * (5 / (n + 5)) * 1) [0..<ndim])"

text \<open>
  The mean and the sum of products of deviations of two coordinates of the samples.
\<close>

definition avg :: "('a \<Rightarrow> real) \<Rightarrow> 'a list \<Rightarrow> real" where
  "avg f xs = (\<Sum>x\<leftarrow>xs. f x) / real (length xs)"

definition comoment :: "('a \<Rightarrow> real) \<Rightarrow> ('a \<Rightarrow> real) \<Rightarrow> 'a list \<Rightarrow> real" where
  "comoment f g xs = (\<Sum>x\<leftarrow>xs. (f x - avg f xs) * (g x - avg g xs))"

subsection \<open>Stabilized log products\<close>

text \<open>
  Logarithm and product behave at the singular points as the specification says: the
  logarithm of zero is \<open>-inf\<close>, zero times an infinity is not a number. On finite values
  the operations are exact.
\<close>

fun flog :: "fnum \<Rightarrow> fnum" where
  "flog (Finite y) = (if 0 < y then Finite (ln y) else if y = 0 then NegInf else NaN)"
| "flog PosInf = PosInf"
| "flog NegInf = NaN"
| "flog NaN = NaN"

fun flog1p :: "fnum \<Rightarrow> fnum" where
  "flog1p (Finite y) = flog (Finite (1 + y))"
| "flog1p PosInf = PosInf"
| "flog1p NegInf = NaN"
| "flog1p NaN = NaN"

fun fmul :: "fnum \<Rightarrow> fnum \<Rightarrow> fnum" where
  "fmul (Finite a) (Finite b) = Finite (a * b)"
| "fmul (Finite a) PosInf = (if a = 0 then NaN else if 0 < a then PosInf else NegInf)"
| "fmul (Finite a) NegInf = (if a = 0 then NaN else if 0 < a then NegInf else PosInf)"
| "fmul PosInf (Finite b) = (if b = 0 then NaN else if 0 < b then PosInf else NegInf)"
| "fmul NegInf (Finite b) = (if b = 0 then NaN else if 0 < b then NegInf else PosInf)"
| "fmul PosInf PosInf = PosInf"
| "fmul PosInf NegInf = NegInf"
| "fmul NegInf PosInf = NegInf"
| "fmul NegInf NegInf = PosInf"
| "fmul NaN _ = NaN"
| "fmul _ NaN = NaN"

text \<open>
  Modelled from the spec: \<^verbatim>\<open>xlogy\<close> of \<^verbatim>\<open>numpyro.distributions.util\<close>, missing from
  the source files; only its test is there. The specification: \<open>xlogy(x, y)\<close> computes
  \<open>x * log(y)\<close>, defined as \<open>0\<close> whenever \<open>x == 0\<close> regardless of \<open>y\<close>.
\<close>

definition xlogy :: "fnum \<Rightarrow> fnum \<Rightarrow> fnum" where
  "xlogy x y = (if x = Finite 0 then Finite 0 else fmul x (flog y))"

text \<open>
  Modelled from the spec: \<^verbatim>\<open>xlog1py\<close> of \<^verbatim>\<open>numpyro.distributions.util\<close>, missing from
  the source files; only its test is there. The specification: \<open>xlog1py(x, y)\<close> computes
  \<open>x * log(1 + y)\<close> with the same zero-guard on \<open>x\<close>.
\<close>

definition xlog1py :: "fnum \<Rightarrow> fnum \<Rightarrow> fnum" where
  "xlog1py x y = (if x = Finite 0 then Finite 0 else fmul x (flog1p y))"

section \<open>Properties\<close>

subsection \<open>The special functions\<close>

lemma step_log_gamma_one: "step_log_gamma 1 = 0"
  by (simp add: step_log_gamma.simps)

lemma step_log_gamma_shift: "0 < x \<Longrightarrow> step_log_gamma (x + 1) = ln x + step_log_gamma x"
  by (subst step_log_gamma.simps) simp

lemma step_log_gamma_eqn: "log_gamma_eqn step_log_gamma"
  by (simp add: log_gamma_eqn_def step_log_gamma_one step_log_gamma_shift)

lemma step_log_beta_eqn: "log_beta_eqn step_log_gamma step_log_beta"
  by (simp add: log_beta_eqn_def step_log_beta_def)

lemma log_gamma_eqn_fact:
  assumes "log_gamma_eqn G"
  shows "G (real (Suc k)) = ln (fact k)"
proof (induction k)
  case 0
  from assms show ?case by (simp add: log_gamma_eqn_def)
next
  case (Suc k)
  have "G (real (Suc k) + 1) = ln (real (Suc k)) + G (real (Suc k))"
    using assms unfolding log_gamma_eqn_def by (meson of_nat_0_less_iff zero_less_Suc)
  moreover have "real (Suc (Suc k)) = real (Suc k) + 1" by simp
  ultimately have "G (real (Suc (Suc k))) = ln (real (Suc k)) + ln (fact k)"
    using Suc.IH by simp
  also have "\<dots> = ln (real (Suc k) * fact k)"
    by (subst ln_mult) simp_all
  finally show ?case by simp
qed

lemma step_log_beta_sym: "step_log_beta a b = step_log_beta b a"
  by (simp add: step_log_beta_def add.commute)

subsection \<open>BetaBinomial: the closed-form marginal\<close>

lemma BetaBinomial_log_prob_in_support:
  assumes "BetaBinomial_support self v"
  shows "BetaBinomial_log_prob G B self v = Inr (Finite (BetaBinomial_log_prob_body G B self v))"
  using assms by (simp add: BetaBinomial_log_prob_def validate_sample_def)

lemma BetaBinomial_body_closed_form:
  "BetaBinomial_log_prob_body G B
     \<lparr>bb_concentration1 = c1, bb_concentration0 = c0, bb_total_count = n,
      bb_validate_args = va\<rparr> v
   = B (v + c1) (n - v + c0) - B c0 c1 - logBetaCount G (n - v + 1) v"
  by (simp add: BetaBinomial_log_prob_body_def log_beta_1_def logBetaCount_def)

lemma BetaBinomial_uniform:
  assumes G: "log_gamma_eqn G" and B: "log_beta_eqn G B" and vn: "v \<le> n"
  shows "exp (BetaBinomial_log_prob_body G B
     \<lparr>bb_concentration1 = 1, bb_concentration0 = 1, bb_total_count = real n,
      bb_validate_args = va\<rparr> (real v)) = 1 / (real n + 1)"
proof -
  define m where "m = n - v"
  have n: "n = v + m" using vn by (simp add: m_def)
  have gv: "G (1 + real v) = ln (fact v)"
    using log_gamma_eqn_fact [OF G, of v] by (simp add: add.commute)
  have gm: "G (real m + 1) = ln (fact m)"
    using log_gamma_eqn_fact [OF G, of m] by (simp add: add.commute)
  have gn: "G (real v + (real m + 1)) = ln (fact n)"
    using log_gamma_eqn_fact [OF G, of n] by (simp add: n add.commute add.left_commute)
  have gn1: "G (real v + 1 + (real m + 1)) = ln (fact (Suc n))"
    using log_gamma_eqn_fact [OF G, of "Suc n"] by (simp add: n algebra_simps)
  have g1: "G 1 = 0" and g2: "G (1 + 1) = 0"
    using log_gamma_eqn_fact [OF G, of 0] log_gamma_eqn_fact [OF G, of 1] by simp_all
  have b11: "B 1 1 = 0"
    using B g1 g2 by (simp add: log_beta_eqn_def)
  have bvm: "B (real v + 1) (real m + 1) = ln (fact v) + ln (fact m) - ln (fact (Suc n))"
  proof -
    have "B (real v + 1) (real m + 1) = G (real v + 1) + G (real m + 1) - G (real v + 1 + (real m + 1))"
    proof -
      have "0 < real v + 1" and "0 < real m + 1" by simp_all
      then show ?thesis using B unfolding log_beta_eqn_def by blast
    qed
    then show ?thesis using gv gm gn1 by (simp add: add.commute)
  qed
  have "BetaBinomial_log_prob_body G B
     \<lparr>bb_concentration1 = 1, bb_concentration0 = 1, bb_total_count = real n,
      bb_validate_args = va\<rparr> (real v) = ln (fact n) - ln (fact (Suc n))"
    using gv gm gn bvm b11
    by (simp add: BetaBinomial_log_prob_body_def log_beta_1_def n)
  also have "\<dots> = ln (fact n / fact (Suc n))"
    by (subst ln_div) simp_all
  also have "fact n / (fact (Suc n) :: real) = 1 / (real n + 1)"
    by (simp add: add.commute)
  finally show ?thesis by simp
qed

text \<open>
  C1. For positive concentrations \<open>c1\<close>, \<open>c0\<close>, a nonnegative integer \<open>n\<close> and an
  integer \<open>v\<close> with \<open>0 \<le> v \<le> n\<close>, \<open>BetaBinomial(c1, c0, n).log_prob(v)\<close> returns
  \<open>logBeta(v+c1, n-v+c0) - logBeta(c0, c1) - logBetaCount(n-v+1, v)\<close>, whether or not
  validation is enabled. For \<open>c1 = c0 = 1\<close> and \<open>n = 5\<close> the probability
  \<open>exp(log_prob(v))\<close> is \<open>1/6\<close> at each \<open>v\<close> in \<open>0..5\<close>, given the functional equation
  of the log-Gamma function and the log-Beta function expressed through it.
\<close>

theorem C1_BetaBinomial_log_prob_closed_form:
  "(0 < c1 \<and> 0 < c0 \<and> n \<in> \<nat> \<and> v \<in> \<int> \<and> 0 \<le> v \<and> v \<le> n \<longrightarrow>
      BetaBinomial_log_prob gammaln betaln
        \<lparr>bb_concentration1 = c1, bb_concentration0 = c0, bb_total_count = n,
         bb_validate_args = va\<rparr> v
      = Inr (Finite (betaln (v + c1) (n - v + c0) - betaln c0 c1
                     - logBetaCount gammaln (n - v + 1) v)))
   \<and> (log_gamma_eqn gammaln \<and> log_beta_eqn gammaln betaln \<and> k \<le> 5 \<longrightarrow>
      prob_of (BetaBinomial_log_prob gammaln betaln
        \<lparr>bb_concentration1 = 1, bb_concentration0 = 1, bb_total_count = 5,
         bb_validate_args = va\<rparr> (real k)) = Inr (Finite (1 / 6)))"
proof (intro conjI impI)
  assume "0 < c1 \<and> 0 < c0 \<and> n \<in> \<nat> \<and> v \<in> \<int> \<and> 0 \<le> v \<and> v \<le> n"
  then have "BetaBinomial_support
      \<lparr>bb_concentration1 = c1, bb_concentration0 = c0, bb_total_count = n,
       bb_validate_args = va\<rparr> v"
    by (simp add: BetaBinomial_support_def integer_interval_def)
  then show "BetaBinomial_log_prob gammaln betaln
        \<lparr>bb_concentration1 = c1, bb_concentration0 = c0, bb_total_count = n,
         bb_validate_args = va\<rparr> v
      = Inr (Finite (betaln (v + c1) (n - v + c0) - betaln c0 c1
                     - logBetaCount gammaln (n - v + 1) v))"
    by (simp only: BetaBinomial_log_prob_in_support BetaBinomial_body_closed_form)
next
  assume h: "log_gamma_eqn gammaln \<and> log_beta_eqn gammaln betaln \<and> k \<le> 5"
  have "BetaBinomial_support
      \<lparr>bb_concentration1 = 1, bb_concentration0 = 1, bb_total_count = 5,
       bb_validate_args = va\<rparr> (real k)"
    using h by (simp add: BetaBinomial_support_def integer_interval_def)
  moreover have "exp (BetaBinomial_log_prob_body gammaln betaln
     \<lparr>bb_concentration1 = 1, bb_concentration0 = 1, bb_total_count = real 5,
      bb_validate_args = va\<rparr> (real k)) = 1 / (real 5 + 1)"
    using h by (intro BetaBinomial_uniform) simp_all
  ultimately show "prob_of (BetaBinomial_log_prob gammaln betaln
        \<lparr>bb_concentration1 = 1, bb_concentration0 = 1, bb_total_count = 5,
         bb_validate_args = va\<rparr> (real k)) = Inr (Finite (1 / 6))"
    by (simp add: BetaBinomial_log_prob_in_support prob_of_def)
qed

theorem C1_BetaBinomial_log_prob_closed_form_witness:
  "BetaBinomial_log_prob step_log_gamma step_log_beta
        \<lparr>bb_concentration1 = 2, bb_concentration0 = 3, bb_total_count = 4,
         bb_validate_args = True\<rparr> 1
      = Inr (Finite (step_log_beta (1 + 2) (4 - 1 + 3) - step_log_beta 3 2
                     - logBetaCount step_log_gamma (4 - 1 + 1) 1))
   \<and> prob_of (BetaBinomial_log_prob step_log_gamma step_log_beta
        \<lparr>bb_concentration1 = 1, bb_concentration0 = 1, bb_total_count = 5,
         bb_validate_args = True\<rparr> (real 3)) = Inr (Finite (1 / 6))"
  using C1_BetaBinomial_log_prob_closed_form
          [of 2 3 4 1 step_log_gamma step_log_beta True 3]
        step_log_gamma_eqn step_log_beta_eqn
  by simp

text \<open>
  C10. For positive concentrations, a nonnegative integer \<open>n\<close> and an integer \<open>v\<close> with
  \<open>0 \<le> v \<le> n\<close>, \<open>BetaBinomial(c1, c0, n).log_prob(v)\<close> equals
  \<open>BetaBinomial(c0, c1, n).log_prob(n - v)\<close>, for a log-Beta function that is symmetric
  in its two positive arguments.
\<close>

theorem C10_BetaBinomial_swap_reflect:
  assumes "0 < c1" and "0 < c0" and "n \<in> \<nat>" and "v \<in> \<int>" and "0 \<le> v" and "v \<le> n"
    and sym: "\<forall>a b. 0 < a \<and> 0 < b \<longrightarrow> betaln a b = betaln b a"
  shows "BetaBinomial_log_prob gammaln betaln
        \<lparr>bb_concentration1 = c1, bb_concentration0 = c0, bb_total_count = n,
         bb_validate_args = va\<rparr> v
      = BetaBinomial_log_prob gammaln betaln
        \<lparr>bb_concentration1 = c0, bb_concentration0 = c1, bb_total_count = n,
         bb_validate_args = va\<rparr> (n - v)"
proof -
  have nz: "n \<in> \<int>" using assms(3) by (rule Nats_subset_Ints [THEN subsetD])
  have s1: "BetaBinomial_support
      \<lparr>bb_concentration1 = c1, bb_concentration0 = c0, bb_total_count = n,
       bb_validate_args = va\<rparr> v"
    using assms by (simp add: BetaBinomial_support_def integer_interval_def)
  have s2: "BetaBinomial_support
      \<lparr>bb_concentration1 = c0, bb_concentration0 = c1, bb_total_count = n,
       bb_validate_args = va\<rparr> (n - v)"
    using assms nz by (simp add: BetaBinomial_support_def integer_interval_def)
  have "0 < v + c1" and "0 < n - v + c0"
    using assms by linarith+
  then have b1: "betaln (v + c1) (n - v + c0) = betaln (n - v + c0) (v + c1)"
    using sym by blast
  have b2: "betaln c0 c1 = betaln c1 c0"
    using sym assms by simp
  have vv: "n - (n - v) = v" by simp
  have lb: "log_beta_1 gammaln (n - v + 1) v = log_beta_1 gammaln (v + 1) (n - v)"
    by (simp add: log_beta_1_def algebra_simps)
  show ?thesis
    unfolding BetaBinomial_log_prob_in_support [OF s1] BetaBinomial_log_prob_in_support [OF s2]
    by (simp only: BetaBinomial_log_prob_body_def BetaBinomial.simps vv lb b1 b2)
qed

theorem C10_BetaBinomial_swap_reflect_witness:
  "BetaBinomial_log_prob step_log_gamma step_log_beta
        \<lparr>bb_concentration1 = 2, bb_concentration0 = 3, bb_total_count = 5,
         bb_validate_args = True\<rparr> 1
      = BetaBinomial_log_prob step_log_gamma step_log_beta
        \<lparr>bb_concentration1 = 3, bb_concentration0 = 2, bb_total_count = 5,
         bb_validate_args = True\<rparr> (5 - 1)"
  using C10_BetaBinomial_swap_reflect [of 2 3 5 1 step_log_beta step_log_gamma True]
        step_log_beta_sym
  by simp

subsection \<open>GammaPoisson: log-density and moments\<close>

text \<open>
  C3. For \<open>\<alpha> > 0\<close>, \<open>rate > 0\<close> and a nonnegative integer \<open>v\<close>,
  \<open>GammaPoisson(\<alpha>, rate).log_prob(v)\<close> returns
  \<open>-logBeta(\<alpha>, v+1) - log(\<alpha>+v) + \<alpha> log(rate) - (\<alpha>+v) log1p(rate)\<close>, whether or not
  validation is enabled.
\<close>

theorem C3_GammaPoisson_log_prob_formula:
  assumes "0 < \<alpha>" and "0 < rate" and "v \<in> \<int>" and "0 \<le> v"
  shows "GammaPoisson_log_prob betaln
           \<lparr>gp_concentration = \<alpha>, gp_rate = rate, gp_validate_args = va\<rparr> v
         = Inr (Finite (- betaln \<alpha> (v + 1) - ln (\<alpha> + v) + \<alpha> * ln rate
                        - (\<alpha> + v) * log1p rate))"
  using assms
  by (simp add: GammaPoisson_log_prob_def validate_sample_def GammaPoisson_support_def
      nonnegative_integer_def GammaPoisson_log_prob_body_def Let_def)

theorem C3_GammaPoisson_log_prob_formula_witness:
  "GammaPoisson_log_prob step_log_beta
           \<lparr>gp_concentration = 2, gp_rate = 3, gp_validate_args = True\<rparr> 4
         = Inr (Finite (- step_log_beta 2 (4 + 1) - ln (2 + 4) + 2 * ln 3 - (2 + 4) * log1p 3))"
  using C3_GammaPoisson_log_prob_formula [of 2 3 4 step_log_beta True]
  by simp

text \<open>
  C4. \<open>GammaPoisson.mean\<close> is \<open>concentration / rate\<close> and \<open>GammaPoisson.variance\<close> is
  \<open>concentration / rate\<^sup>2 * (1 + rate)\<close>: both are closed-form functions of the two
  parameters alone, with no key and no draw.
\<close>

theorem C4_GammaPoisson_moments:
  "GammaPoisson_mean \<lparr>gp_concentration = \<alpha>, gp_rate = rate, gp_validate_args = va\<rparr>
     = \<alpha> / rate
   \<and> GammaPoisson_variance \<lparr>gp_concentration = \<alpha>, gp_rate = rate, gp_validate_args = va\<rparr>
     = \<alpha> / rate\<^sup>2 * (1 + rate)"
  by (simp add: GammaPoisson_mean_def GammaPoisson_variance_def square_def power2_eq_square)

subsection \<open>Sampling: one split, two draws, two keys\<close>





subsection \<open>Validation of the value\<close>





subsection \<open>DirichletMultinomial: the closed form and its total mass\<close>

lemma log_gamma_eqn_pochhammer:
  assumes G: "log_gamma_eqn G" and a: "0 < a"
  shows "G (a + real k) = G a + ln (pochhammer a k)"
proof (induction k)
  case 0
  show ?case by simp
next
  case (Suc k)
  have pos: "0 < a + real k" using a by (simp add: add_pos_nonneg)
  have pp: "0 < pochhammer a k" using a by (rule pochhammer_pos)
  have "a + real (Suc k) = (a + real k) + 1" by simp
  then have "G (a + real (Suc k)) = G ((a + real k) + 1)" by (rule arg_cong)
  also have "\<dots> = ln (a + real k) + G (a + real k)"
    using G pos unfolding log_gamma_eqn_def by blast
  also have "\<dots> = G a + (ln (pochhammer a k) + ln (a + real k))"
    using Suc.IH by simp
  also have "ln (pochhammer a k) + ln (a + real k) = ln (pochhammer a k * (a + real k))"
    using pp pos by (simp add: ln_mult)
  finally show ?case by (simp add: pochhammer_Suc)
qed

lemma exp_log_beta_1:
  assumes G: "log_gamma_eqn G" and a: "0 < a"
  shows "exp (log_beta_1 G a (real k)) = 1 / rising_weight a k"
proof -
  have pp: "0 < pochhammer a k" using a by (rule pochhammer_pos)
  have "G (1 + real k) = ln (fact k)"
    using log_gamma_eqn_fact [OF G, of k] by (simp add: add.commute)
  moreover have "G (real k + a) = G a + ln (pochhammer a k)"
    using log_gamma_eqn_pochhammer [OF G a, of k] by (simp add: add.commute)
  ultimately have "log_beta_1 G a (real k) = ln (fact k) - ln (pochhammer a k)"
    by (simp add: log_beta_1_def)
  also have "\<dots> = ln (fact k / pochhammer a k)"
    using pp by (simp add: ln_div)
  finally show ?thesis using pp by (simp add: rising_weight_def)
qed

lemma rising_weight_pos: "0 < a \<Longrightarrow> 0 < rising_weight a k"
  by (simp add: rising_weight_def pochhammer_pos)

lemma rising_weight_zero: "rising_weight 0 n = (if n = 0 then 1 else 0)"
  by (simp add: rising_weight_def pochhammer_0_left)

lemma rising_weight_add:
  "rising_weight (a + b) n = (\<Sum>k\<le>n. rising_weight a k * rising_weight b (n - k))"
proof -
  have "rising_weight (a + b) n
      = (\<Sum>k\<le>n. real (n choose k) * pochhammer a k * pochhammer b (n - k)) / fact n"
    by (simp add: rising_weight_def pochhammer_binomial_sum)
  also have "\<dots> = (\<Sum>k\<le>n. real (n choose k) * pochhammer a k * pochhammer b (n - k) / fact n)"
    by (simp add: sum_divide_distrib)
  also have "\<dots> = (\<Sum>k\<le>n. rising_weight a k * rising_weight b (n - k))"
  proof (rule sum.cong)
    fix k assume "k \<in> {..n}"
    then have kn: "k \<le> n" by simp
    have "real (n choose k) = fact n / (fact k * fact (n - k))"
      using binomial_fact [OF kn, where ?'a = real] by simp
    then show "real (n choose k) * pochhammer a k * pochhammer b (n - k) / fact n
        = rising_weight a k * rising_weight b (n - k)"
      by (simp add: rising_weight_def)
  qed simp
  finally show ?thesis .
qed

lemma compositions_props:
  "v \<in> set (compositions n k) \<Longrightarrow> length v = k \<and> sum_list v = n"
proof (induction k arbitrary: n v)
  case 0
  then show ?case by (simp split: if_splits)
next
  case (Suc k)
  then obtain i w where i: "i \<le> n" and w: "w \<in> set (compositions (n - i) k)" and v: "v = i # w"
    by (auto simp del: upt_Suc)
  from Suc.IH [OF w] i v show ?case by simp
qed

lemma sum_list_concat_map:
  fixes f :: "'a \<Rightarrow> real"
  shows "sum_list (map f (concat (map g xs))) = (\<Sum>x\<leftarrow>xs. sum_list (map f (g x)))"
  by (induction xs) simp_all

lemma compositions_sum_weights:
  "(\<Sum>v\<leftarrow>compositions n (length alpha). prod_list (map (\<lambda>(a, k). rising_weight a k) (zip alpha v)))
   = rising_weight (sum_list alpha) n"
proof (induction alpha arbitrary: n)
  case Nil
  show ?case by (simp add: rising_weight_zero)
next
  case (Cons a as)
  let ?P = "\<lambda>al v. prod_list (map (\<lambda>(a, k). rising_weight a k) (zip al v))"
  have "(\<Sum>v\<leftarrow>compositions n (length (a # as)). ?P (a # as) v)
      = (\<Sum>i\<leftarrow>[0..<Suc n]. \<Sum>w\<leftarrow>compositions (n - i) (length as). rising_weight a i * ?P as w)"
    by (simp add: sum_list_concat_map comp_def del: upt_Suc)
  also have "\<dots> = (\<Sum>i\<leftarrow>[0..<Suc n]. rising_weight a i * rising_weight (sum_list as) (n - i))"
    by (simp add: sum_list_const_mult Cons.IH del: upt_Suc)
  also have "\<dots> = (\<Sum>i\<le>n. rising_weight a i * rising_weight (sum_list as) (n - i))"
    by (simp add: interv_sum_list_conv_sum_set_nat lessThan_Suc_atMost atLeast0LessThan del: upt_Suc)
  also have "\<dots> = rising_weight (a + sum_list as) n"
    by (simp add: rising_weight_add)
  finally show ?case by simp
qed


lemma DirichletMultinomial_body_equal_length:
  assumes "length vs = length alpha"
  shows "DirichletMultinomial_log_prob_body G
           \<lparr>dm_concentration = alpha, dm_total_count = n, dm_validate_args = va\<rparr> vs
         = Inr (log_beta_1 G (sum_list alpha) (sum_list vs)
                - (\<Sum>(a, x)\<leftarrow>zip alpha vs. log_beta_1 G a x))"
  using assms
  by (simp add: DirichletMultinomial_log_prob_body_def broadcast_categories_def)

lemma log_beta_1_logBetaCount: "log_beta_1 = logBetaCount"
  by (intro ext) (simp add: log_beta_1_def logBetaCount_def)

lemma DirichletMultinomial_log_prob_valid:
  assumes "length vs = length alpha" and "\<forall>x \<in> set vs. x \<in> \<int> \<and> 0 \<le> x" and "sum_list vs = n"
  shows "DirichletMultinomial_log_prob G
           \<lparr>dm_concentration = alpha, dm_total_count = n, dm_validate_args = va\<rparr> vs
         = Inr (Finite (log_beta_1 G (sum_list alpha) (sum_list vs)
                        - (\<Sum>(a, x)\<leftarrow>zip alpha vs. log_beta_1 G a x)))"
  using assms DirichletMultinomial_body_equal_length [OF assms(1), of G n va]
  by (simp add: DirichletMultinomial_log_prob_def validate_sample_def
      DirichletMultinomial_support_def multinomial_def)

lemma exp_sum_log_beta_1:
  assumes G: "log_gamma_eqn G"
  shows "length c = length alpha \<Longrightarrow> \<forall>a \<in> set alpha. 0 < a \<Longrightarrow>
    exp (- (\<Sum>(a, x)\<leftarrow>zip alpha (map real c). log_beta_1 G a x))
    = prod_list (map (\<lambda>(a, k). rising_weight a k) (zip alpha c))"
proof (induction c alpha rule: list_induct2)
  case Nil
  show ?case by simp
next
  case (Cons k c a alpha)
  have a: "0 < a" using Cons.prems by simp
  have hd: "exp (- log_beta_1 G a (real k)) = rising_weight a k"
    using exp_log_beta_1 [OF G a, of k] rising_weight_pos [OF a, of k]
    by (simp add: exp_minus field_simps)
  have tl: "exp (- (\<Sum>(a, x)\<leftarrow>zip alpha (map real c). log_beta_1 G a x))
    = prod_list (map (\<lambda>(a, k). rising_weight a k) (zip alpha c))"
    using Cons by simp
  have "- (\<Sum>(a, x)\<leftarrow>zip (a # alpha) (map real (k # c)). log_beta_1 G a x)
      = - log_beta_1 G a (real k) + - (\<Sum>(a, x)\<leftarrow>zip alpha (map real c). log_beta_1 G a x)"
    by simp
  then have "exp (- (\<Sum>(a, x)\<leftarrow>zip (a # alpha) (map real (k # c)). log_beta_1 G a x))
      = exp (- log_beta_1 G a (real k))
        * exp (- (\<Sum>(a, x)\<leftarrow>zip alpha (map real c). log_beta_1 G a x))"
    by (simp only: exp_add)
  then show ?case by (simp only: hd tl) simp
qed

lemma sum_list_divide_const:
  fixes f :: "'a \<Rightarrow> real"
  shows "(\<Sum>x\<leftarrow>xs. f x / d) = (\<Sum>x\<leftarrow>xs. f x) / d"
  by (induction xs) (simp_all add: add_divide_distrib)

lemma sum_list_pos_nonempty:
  fixes xs :: "real list"
  shows "xs \<noteq> [] \<Longrightarrow> \<forall>a \<in> set xs. 0 < a \<Longrightarrow> 0 < sum_list xs"
  by (induction xs) (auto intro: add_pos_nonneg sum_list_nonneg less_imp_le)

lemma DirichletMultinomial_prob_composition:
  assumes G: "log_gamma_eqn G" and ne: "alpha \<noteq> []" and pos: "\<forall>a \<in> set alpha. 0 < a"
    and c: "c \<in> set (compositions m (length alpha))"
  shows "DirichletMultinomial_log_prob G
           \<lparr>dm_concentration = alpha, dm_total_count = real m, dm_validate_args = va\<rparr>
           (map real c)
         = Inr (Finite (log_beta_1 G (sum_list alpha) (real m)
                        - (\<Sum>(a, x)\<leftarrow>zip alpha (map real c). log_beta_1 G a x)))"
    and "exp (log_beta_1 G (sum_list alpha) (real m)
                - (\<Sum>(a, x)\<leftarrow>zip alpha (map real c). log_beta_1 G a x))
         = prod_list (map (\<lambda>(a, k). rising_weight a k) (zip alpha c))
           / rising_weight (sum_list alpha) m"
proof -
  have len: "length c = length alpha" and tot: "sum_list c = m"
    using compositions_props [OF c] by simp_all
  have tot': "sum_list (map real c) = real m"
    using tot by (induction c arbitrary: m) auto
  have "\<forall>x \<in> set (map real c). x \<in> \<int> \<and> 0 \<le> x" by auto
  then show "DirichletMultinomial_log_prob G
           \<lparr>dm_concentration = alpha, dm_total_count = real m, dm_validate_args = va\<rparr>
           (map real c)
         = Inr (Finite (log_beta_1 G (sum_list alpha) (real m)
                        - (\<Sum>(a, x)\<leftarrow>zip alpha (map real c). log_beta_1 G a x)))"
    using DirichletMultinomial_log_prob_valid [of "map real c" alpha "real m" G va] len tot'
    by simp
  have A: "0 < sum_list alpha" using ne pos by (rule sum_list_pos_nonempty)
  show "exp (log_beta_1 G (sum_list alpha) (real m)
                - (\<Sum>(a, x)\<leftarrow>zip alpha (map real c). log_beta_1 G a x))
         = prod_list (map (\<lambda>(a, k). rising_weight a k) (zip alpha c))
           / rising_weight (sum_list alpha) m"
    using exp_log_beta_1 [OF G A, of m] exp_sum_log_beta_1 [OF G len pos]
    by (simp add: diff_conv_add_uminus exp_add del: add_uminus_conv_diff exp_minus)
qed

lemma DirichletMultinomial_total_mass:
  assumes G: "log_gamma_eqn G" and ne: "alpha \<noteq> []" and pos: "\<forall>a \<in> set alpha. 0 < a"
  shows "(\<Sum>c\<leftarrow>compositions m (length alpha).
            exp (finite_value (projr (DirichletMultinomial_log_prob G
              \<lparr>dm_concentration = alpha, dm_total_count = real m, dm_validate_args = va\<rparr>
              (map real c))))) = 1"
proof -
  let ?W = "rising_weight (sum_list alpha) m"
  have A: "0 < sum_list alpha" using ne pos by (rule sum_list_pos_nonempty)
  have W: "0 < ?W" using A by (rule rising_weight_pos)
  have "(\<Sum>c\<leftarrow>compositions m (length alpha).
            exp (finite_value (projr (DirichletMultinomial_log_prob G
              \<lparr>dm_concentration = alpha, dm_total_count = real m, dm_validate_args = va\<rparr>
              (map real c)))))
      = (\<Sum>c\<leftarrow>compositions m (length alpha).
            prod_list (map (\<lambda>(a, k). rising_weight a k) (zip alpha c)) / ?W)"
    by (rule arg_cong [where f = sum_list], rule map_cong [OF refl])
       (simp add: DirichletMultinomial_prob_composition [OF G ne pos])
  also have "\<dots> = (\<Sum>c\<leftarrow>compositions m (length alpha).
            prod_list (map (\<lambda>(a, k). rising_weight a k) (zip alpha c))) / ?W"
    by (rule sum_list_divide_const)
  also have "\<dots> = 1"
    using W by (simp add: compositions_sum_weights)
  finally show ?thesis .
qed

text \<open>
  C2. For a concentration vector with positive entries and a valid value (nonnegative
  integers, as many as there are categories, summing to \<open>total_count\<close>),
  \<open>DirichletMultinomial.log_prob\<close> returns the number
  \<open>logBetaCount(\<Sum>\<alpha>, \<Sum>v) - \<Sum>\<^sub>i logBetaCount(\<alpha>\<^sub>i, v\<^sub>i)\<close>. Given the functional equation of
  the log-Gamma function, every integer composition of \<open>total_count\<close> gets a number, and
  the probabilities \<open>exp(log_prob)\<close> of all compositions sum to one, for any number of
  categories and any \<open>total_count\<close>.
\<close>

theorem C2_DirichletMultinomial_log_prob:
  "(length vs = length alpha \<and> (\<forall>a \<in> set alpha. 0 < a) \<and> n \<in> \<nat>
      \<and> (\<forall>x \<in> set vs. x \<in> \<int> \<and> 0 \<le> x) \<and> sum_list vs = n \<longrightarrow>
    DirichletMultinomial_log_prob gammaln
      \<lparr>dm_concentration = alpha, dm_total_count = n, dm_validate_args = va\<rparr> vs
    = Inr (Finite (logBetaCount gammaln (sum_list alpha) (sum_list vs)
                   - (\<Sum>(a, x)\<leftarrow>zip alpha vs. logBetaCount gammaln a x))))
   \<and> (log_gamma_eqn gammaln \<and> alpha \<noteq> [] \<and> (\<forall>a \<in> set alpha. 0 < a) \<longrightarrow>
      (\<forall>c \<in> set (compositions m (length alpha)).
         \<exists>lp. DirichletMultinomial_log_prob gammaln
           \<lparr>dm_concentration = alpha, dm_total_count = real m, dm_validate_args = va\<rparr>
           (map real c) = Inr (Finite lp))
      \<and> (\<Sum>c\<leftarrow>compositions m (length alpha).
            exp (finite_value (projr (DirichletMultinomial_log_prob gammaln
              \<lparr>dm_concentration = alpha, dm_total_count = real m, dm_validate_args = va\<rparr>
              (map real c))))) = 1)"
proof (intro conjI impI ballI)
  assume "length vs = length alpha \<and> (\<forall>a \<in> set alpha. 0 < a) \<and> n \<in> \<nat>
      \<and> (\<forall>x \<in> set vs. x \<in> \<int> \<and> 0 \<le> x) \<and> sum_list vs = n"
  then show "DirichletMultinomial_log_prob gammaln
      \<lparr>dm_concentration = alpha, dm_total_count = n, dm_validate_args = va\<rparr> vs
    = Inr (Finite (logBetaCount gammaln (sum_list alpha) (sum_list vs)
                   - (\<Sum>(a, x)\<leftarrow>zip alpha vs. logBetaCount gammaln a x)))"
    using DirichletMultinomial_log_prob_valid [of vs alpha n gammaln va]
    by (simp add: log_beta_1_logBetaCount)
next
  fix c
  assume "log_gamma_eqn gammaln \<and> alpha \<noteq> [] \<and> (\<forall>a \<in> set alpha. 0 < a)"
    and "c \<in> set (compositions m (length alpha))"
  then show "\<exists>lp. DirichletMultinomial_log_prob gammaln
           \<lparr>dm_concentration = alpha, dm_total_count = real m, dm_validate_args = va\<rparr>
           (map real c) = Inr (Finite lp)"
    using DirichletMultinomial_prob_composition(1) [of gammaln alpha c m va] by blast
next
  assume "log_gamma_eqn gammaln \<and> alpha \<noteq> [] \<and> (\<forall>a \<in> set alpha. 0 < a)"
  then show "(\<Sum>c\<leftarrow>compositions m (length alpha).
            exp (finite_value (projr (DirichletMultinomial_log_prob gammaln
              \<lparr>dm_concentration = alpha, dm_total_count = real m, dm_validate_args = va\<rparr>
              (map real c))))) = 1"
    using DirichletMultinomial_total_mass [of gammaln alpha m va] by blast
qed

theorem C2_DirichletMultinomial_log_prob_witness:
  "DirichletMultinomial_log_prob step_log_gamma
      \<lparr>dm_concentration = [2, 3], dm_total_count = 3, dm_validate_args = True\<rparr> [1, 2]
    = Inr (Finite (logBetaCount step_log_gamma (sum_list [2, 3]) (sum_list [1, 2])
                   - (\<Sum>(a, x)\<leftarrow>zip [2, 3] [1, 2]. logBetaCount step_log_gamma a x)))
   \<and> (\<Sum>c\<leftarrow>compositions 3 (length [2, 3 :: real]).
         exp (finite_value (projr (DirichletMultinomial_log_prob step_log_gamma
           \<lparr>dm_concentration = [2, 3], dm_total_count = real 3, dm_validate_args = True\<rparr>
           (map real c))))) = 1"
proof -
  have h1: "length [1, 2 :: real] = length [2, 3 :: real] \<and> (\<forall>a \<in> set [2, 3 :: real]. 0 < a)
      \<and> (3 :: real) \<in> \<nat> \<and> (\<forall>x \<in> set [1, 2 :: real]. x \<in> \<int> \<and> 0 \<le> x)
      \<and> sum_list [1, 2 :: real] = 3"
    by simp
  have h2: "log_gamma_eqn step_log_gamma \<and> [2, 3 :: real] \<noteq> [] \<and> (\<forall>a \<in> set [2, 3 :: real]. 0 < a)"
    by (simp add: step_log_gamma_eqn)
  show ?thesis
    using C2_DirichletMultinomial_log_prob [of "[1, 2]" "[2, 3]" 3 step_log_gamma True 3] h1 h2
    by blast
qed

lemma compositions_3_2: "compositions 3 2 = [[0, 3], [1, 2], [2, 1], [3, 0]]"
  by code_simp

subsection \<open>Construction: batch shapes\<close>

lemma broadcast_rev_Nil2 [simp]: "broadcast_rev xs [] = Inr xs"
  by (cases xs) simp_all


lemma broadcast_rev_same [simp]: "broadcast_rev xs xs = Inr xs"
  by (induction xs) simp_all



lemma and_then_Inr [simp]: "and_then (Inr x) f = f x"
  by (simp add: and_then_def)

lemma broadcast_pair_Nil [simp]: "broadcast_pair [] t = Inr t" "broadcast_pair s [] = Inr s"
  by (simp_all add: broadcast_pair_def)

lemma broadcast_pair_same [simp]: "broadcast_pair s s = Inr s"
  by (simp add: broadcast_pair_def)
















lemma broadcast_shapes_examples:
  "broadcast_shapes [[], [3], [2, 1]] = Inr [2, 3]"
  "broadcast_shapes [[3], [2, 1]] = Inr [2, 3]"
  "broadcast_shapes [[2, 1], [3]] = Inr [2, 3]"
  "broadcast_shapes [[2], [3]] = Inl ValueError"
  by (simp_all add: broadcast_pair_def)




subsection \<open>Welford covariance\<close>

lemma sum_avg: "(\<Sum>x\<leftarrow>xs. f x) = avg f xs * real (length xs)"
  by (cases "xs = []") (simp_all add: avg_def)

lemma mean_step:
  fixes a f m :: real
  assumes "m \<noteq> 0"
  shows "(a * (m - 1) + f) / m = a + (f - a) / m"
  using assms by (simp add: field_simps)

lemma avg_snoc: "avg f (xs @ [x]) = avg f xs + (f x - avg f xs) / (real (length xs) + 1)"
proof -
  have "avg f (xs @ [x]) = (avg f xs * (real (length xs) + 1 - 1) + f x) / (real (length xs) + 1)"
    unfolding avg_def [of f "xs @ [x]"] by (simp add: sum_avg [of f xs] add.commute)
  also have "\<dots> = avg f xs + (f x - avg f xs) / (real (length xs) + 1)"
    by (rule mean_step) (simp add: add_nonneg_eq_0_iff)
  finally show ?thesis .
qed

lemma centred_products:
  fixes a b :: real
  shows "(\<Sum>x\<leftarrow>xs. (f x - a) * (g x - b))
     = (\<Sum>x\<leftarrow>xs. f x * g x) - b * (\<Sum>x\<leftarrow>xs. f x) - a * (\<Sum>x\<leftarrow>xs. g x)
       + real (length xs) * a * b"
  by (induction xs) (simp_all add: algebra_simps)

lemma comoment_step:
  fixes m P a b f g :: real
  assumes "m \<noteq> 0"
  shows "P + f * g - (b + (g - b) / m) * (a * (m - 1) + f) - (a + (f - a) / m) * (b * (m - 1) + g)
           + m * (a + (f - a) / m) * (b + (g - b) / m)
       = P - b * (a * (m - 1)) - a * (b * (m - 1)) + (m - 1) * a * b
           + (f - a) * (g - (b + (g - b) / m))"
  using assms by (simp add: field_simps)

lemma comoment_snoc:
  "comoment f g (xs @ [x])
     = comoment f g xs + (f x - avg f xs) * (g x - avg g (xs @ [x]))"
proof -
  define m where "m = real (length xs) + 1"
  have m: "m \<noteq> 0" by (simp add: m_def add_nonneg_eq_0_iff)
  have n: "real (length xs) = m - 1" by (simp add: m_def)
  have l: "real (length (xs @ [x])) = m" by (simp add: m_def)
  show ?thesis
    unfolding comoment_def centred_products avg_snoc l
    unfolding sum_avg [of f xs] sum_avg [of g xs] n
    using comoment_step [OF m, of "\<Sum>x\<leftarrow>xs. f x * g x" "f x" "g x" "avg g xs" "avg f xs"]
    by (simp add: sum_avg [of f xs] sum_avg [of g xs] n add.commute)
qed

lemma map2_map_map: "map2 f (map g is) (map h is) = map (\<lambda>i. f (g i) (h i)) is"
  by (induction "is") simp_all

lemma map2_nth_left:
  "length x = d \<Longrightarrow> map2 f x (map g [0..<d]) = map (\<lambda>i. f (x ! i) (g i)) [0..<d]"
  by (rule nth_equalityI) simp_all

lemma welford_update_step:
  assumes x: "length x = ndim"
  defines "is \<equiv> [0..<ndim]"
  shows "welford_update x
     \<lparr>wc_count = length xs,
      wc_mean = map (\<lambda>a. avg (\<lambda>x. x ! a) xs) is,
      wc_m2 = Full (map (\<lambda>a. map (\<lambda>b. comoment (\<lambda>x. x ! a) (\<lambda>x. x ! b) xs) is) is)\<rparr>
   = \<lparr>wc_count = length (xs @ [x]),
      wc_mean = map (\<lambda>a. avg (\<lambda>x. x ! a) (xs @ [x])) is,
      wc_m2 = Full (map (\<lambda>a. map (\<lambda>b. comoment (\<lambda>x. x ! a) (\<lambda>x. x ! b) (xs @ [x])) is) is)\<rparr>"
proof -
  let ?\<mu> = "\<lambda>a. avg (\<lambda>x. x ! a) xs"
  let ?\<mu>' = "\<lambda>a. avg (\<lambda>x. x ! a) (xs @ [x])"
  have delta: "map2 (-) x (map ?\<mu> is) = map (\<lambda>a. x ! a - ?\<mu> a) is"
    unfolding is_def using x by (rule map2_nth_left)
  have mean: "map2 (+) (map ?\<mu> is) (map (\<lambda>d. d / real (length xs + 1)) (map (\<lambda>a. x ! a - ?\<mu> a) is))
      = map ?\<mu>' is"
    by (simp add: map2_map_map avg_snoc comp_def add.commute)
  have post: "map2 (-) x (map ?\<mu>' is) = map (\<lambda>a. x ! a - ?\<mu>' a) is"
    unfolding is_def using x by (rule map2_nth_left)
  have m2: "map2 (map2 (+))
        (map (\<lambda>a. map (\<lambda>b. comoment (\<lambda>x. x ! a) (\<lambda>x. x ! b) xs) is) is)
        (outer (map (\<lambda>a. x ! a - ?\<mu> a) is) (map (\<lambda>a. x ! a - ?\<mu>' a) is))
      = map (\<lambda>a. map (\<lambda>b. comoment (\<lambda>x. x ! a) (\<lambda>x. x ! b) (xs @ [x])) is) is"
    by (simp add: outer_def map2_map_map comp_def comoment_snoc)
  show ?thesis
    by (simp only: welford_update_def Let_def welford_state.simps accumulator.case
        delta mean post m2) simp
qed

lemma welford_run_full:
  assumes "\<forall>x \<in> set xs. length x = ndim"
  shows "welford_run False ndim xs =
     \<lparr>wc_count = length xs,
      wc_mean = map (\<lambda>a. avg (\<lambda>x. x ! a) xs) [0..<ndim],
      wc_m2 = Full (map (\<lambda>a. map (\<lambda>b. comoment (\<lambda>x. x ! a) (\<lambda>x. x ! b) xs) [0..<ndim]) [0..<ndim])\<rparr>"
  using assms
proof (induction xs rule: rev_induct)
  case Nil
  show ?case
    by (simp add: welford_run_def welford_init_def avg_def comoment_def map_replicate_const)
next
  case (snoc x xs)
  have x: "length x = ndim" using snoc.prems by simp
  have run: "welford_run False ndim (xs @ [x]) = welford_update x (welford_run False ndim xs)"
    by (simp add: welford_run_def)
  have "welford_run False ndim xs =
     \<lparr>wc_count = length xs,
      wc_mean = map (\<lambda>a. avg (\<lambda>x. x ! a) xs) [0..<ndim],
      wc_m2 = Full (map (\<lambda>a. map (\<lambda>b. comoment (\<lambda>x. x ! a) (\<lambda>x. x ! b) xs) [0..<ndim]) [0..<ndim])\<rparr>"
    using snoc by simp
  then show ?case
    unfolding run using welford_update_step [OF x, of xs] by simp
qed

lemma avg_sample_mean: "avg (\<lambda>x. x ! a) xs = sample_mean xs a"
  by (simp add: avg_def sample_mean_def)

lemma welford_update_step_diagonal:
  assumes x: "length x = ndim"
  defines "is \<equiv> [0..<ndim]"
  shows "welford_update x
     \<lparr>wc_count = length xs,
      wc_mean = map (\<lambda>a. avg (\<lambda>x. x ! a) xs) is,
      wc_m2 = Diagonal (map (\<lambda>a. comoment (\<lambda>x. x ! a) (\<lambda>x. x ! a) xs) is)\<rparr>
   = \<lparr>wc_count = length (xs @ [x]),
      wc_mean = map (\<lambda>a. avg (\<lambda>x. x ! a) (xs @ [x])) is,
      wc_m2 = Diagonal (map (\<lambda>a. comoment (\<lambda>x. x ! a) (\<lambda>x. x ! a) (xs @ [x])) is)\<rparr>"
proof -
  let ?\<mu> = "\<lambda>a. avg (\<lambda>x. x ! a) xs"
  let ?\<mu>' = "\<lambda>a. avg (\<lambda>x. x ! a) (xs @ [x])"
  have delta: "map2 (-) x (map ?\<mu> is) = map (\<lambda>a. x ! a - ?\<mu> a) is"
    unfolding is_def using x by (rule map2_nth_left)
  have mean: "map2 (+) (map ?\<mu> is) (map (\<lambda>d. d / real (length xs + 1)) (map (\<lambda>a. x ! a - ?\<mu> a) is))
      = map ?\<mu>' is"
    by (simp add: map2_map_map avg_snoc comp_def add.commute)
  have post: "map2 (-) x (map ?\<mu>' is) = map (\<lambda>a. x ! a - ?\<mu>' a) is"
    unfolding is_def using x by (rule map2_nth_left)
  have m2: "map2 (+)
        (map (\<lambda>a. comoment (\<lambda>x. x ! a) (\<lambda>x. x ! a) xs) is)
        (map2 (*) (map (\<lambda>a. x ! a - ?\<mu> a) is) (map (\<lambda>a. x ! a - ?\<mu>' a) is))
      = map (\<lambda>a. comoment (\<lambda>x. x ! a) (\<lambda>x. x ! a) (xs @ [x])) is"
    by (simp add: map2_map_map comoment_snoc)
  show ?thesis
    by (simp only: welford_update_def Let_def welford_state.simps accumulator.case
        delta mean post m2) simp
qed

lemma welford_run_diagonal:
  assumes "\<forall>x \<in> set xs. length x = ndim"
  shows "welford_run True ndim xs =
     \<lparr>wc_count = length xs,
      wc_mean = map (\<lambda>a. avg (\<lambda>x. x ! a) xs) [0..<ndim],
      wc_m2 = Diagonal (map (\<lambda>a. comoment (\<lambda>x. x ! a) (\<lambda>x. x ! a) xs) [0..<ndim])\<rparr>"
  using assms
proof (induction xs rule: rev_induct)
  case Nil
  show ?case
    by (simp add: welford_run_def welford_init_def avg_def comoment_def map_replicate_const)
next
  case (snoc x xs)
  have x: "length x = ndim" using snoc.prems by simp
  have run: "welford_run True ndim (xs @ [x]) = welford_update x (welford_run True ndim xs)"
    by (simp add: welford_run_def)
  have "welford_run True ndim xs =
     \<lparr>wc_count = length xs,
      wc_mean = map (\<lambda>a. avg (\<lambda>x. x ! a) xs) [0..<ndim],
      wc_m2 = Diagonal (map (\<lambda>a. comoment (\<lambda>x. x ! a) (\<lambda>x. x ! a) xs) [0..<ndim])\<rparr>"
    using snoc by simp
  then show ?case
    unfolding run using welford_update_step_diagonal [OF x, of xs] by simp
qed

lemma comoment_covariance_entry:
  "comoment (\<lambda>x. x ! a) (\<lambda>x. x ! b) xs / (real (length xs) - 1) = covariance_entry xs a b"
  by (simp add: comoment_def covariance_entry_def avg_sample_mean)

lemma comoment_variance_entry:
  "comoment (\<lambda>x. x ! a) (\<lambda>x. x ! a) xs / (real (length xs) - 1) = variance_entry xs a"
  by (simp add: comoment_def variance_entry_def avg_sample_mean power2_eq_square)

lemma finalize_full:
  assumes "\<forall>x \<in> set xs. length x = ndim"
  shows "welford_finalize (welford_run False ndim xs) False = Full (sample_covariance ndim xs)"
  by (simp add: welford_run_full [OF assms] welford_finalize_def sample_covariance_def
      comoment_covariance_entry comp_def Let_def)

lemma finalize_diagonal:
  assumes "\<forall>x \<in> set xs. length x = ndim"
  shows "welford_finalize (welford_run True ndim xs) False = Diagonal (sample_variance ndim xs)"
  by (simp add: welford_run_diagonal [OF assms] welford_finalize_def sample_variance_def
      comoment_variance_entry comp_def Let_def)

lemma finalize_full_regularized:
  assumes "\<forall>x \<in> set xs. length x = ndim"
  shows "welford_finalize (welford_run False ndim xs) True = Full (regularized_covariance ndim xs)"
  by (simp only: welford_run_full [OF assms] welford_finalize_def regularized_covariance_def
      identity_def Let_def welford_state.simps accumulator.case if_True map_map comp_def
      map2_map_map comoment_covariance_entry length_map length_upt diff_zero)

lemma finalize_diagonal_regularized:
  assumes "\<forall>x \<in> set xs. length x = ndim"
  shows "welford_finalize (welford_run True ndim xs) True = Diagonal (regularized_variance ndim xs)"
  by (simp only: welford_run_diagonal [OF assms] welford_finalize_def regularized_variance_def
      Let_def welford_state.simps accumulator.case if_True map_map comp_def
      comoment_variance_entry)

text \<open>
  C8. For samples of one length, at least two of them, \<open>init\<close>, one \<open>update\<close> per sample
  and \<open>finalize\<close> without regularization give the unbiased sample covariance: the sum over
  the samples of the products of the deviations from the sample mean, divided by \<open>n - 1\<close>
  (the elementwise squares in diagonal mode). With regularization the result is
  \<open>cov * n/(n+5) + 1e-3 * (5/(n+5)) * I\<close> (a vector of ones for \<open>I\<close> in diagonal mode).
\<close>

theorem C8_welford_covariance:
  assumes "2 \<le> length xs" and "\<forall>x \<in> set xs. length x = ndim"
  shows "welford_finalize (welford_run False ndim xs) False = Full (sample_covariance ndim xs)
       \<and> welford_finalize (welford_run True ndim xs) False = Diagonal (sample_variance ndim xs)
       \<and> welford_finalize (welford_run False ndim xs) True
           = Full (regularized_covariance ndim xs)
       \<and> welford_finalize (welford_run True ndim xs) True
           = Diagonal (regularized_variance ndim xs)"
  using finalize_full [OF assms(2)] finalize_diagonal [OF assms(2)]
        finalize_full_regularized [OF assms(2)] finalize_diagonal_regularized [OF assms(2)]
  by simp

theorem C8_welford_covariance_witness:
  "welford_finalize (welford_run False 2 [[1, 2], [3, 5]]) False
     = Full (sample_covariance 2 [[1, 2], [3, 5]])
   \<and> welford_finalize (welford_run True 2 [[1, 2], [3, 5]]) False
     = Diagonal (sample_variance 2 [[1, 2], [3, 5]])
   \<and> welford_finalize (welford_run False 2 [[1, 2], [3, 5]]) True
     = Full (regularized_covariance 2 [[1, 2], [3, 5]])
   \<and> welford_finalize (welford_run True 2 [[1, 2], [3, 5]]) True
     = Diagonal (regularized_variance 2 [[1, 2], [3, 5]])"
  using C8_welford_covariance [of "[[1, 2], [3, 5]]" 2]
  by simp

lemma upt_2: "[0..<2] = [0, Suc 0]"
  by (simp add: upt_rec numeral_2_eq_2)

lemma sample_covariance_example:
  "sample_covariance 2 [[1, 2], [3, 5]] = [[2, 3], [3, 9 / 2]]"
  by (simp add: sample_covariance_def covariance_entry_def sample_mean_def upt_2)

lemma welford_example:
  "welford_finalize (welford_run False 2 [[1, 2], [3, 5]]) False = Full [[2, 3], [3, 9 / 2]]"
  by (simp add: welford_run_def welford_init_def welford_update_def welford_finalize_def
      outer_def Let_def numeral_2_eq_2)

subsection \<open>Stabilized log products\<close>

text \<open>
  C9. When \<open>x\<close> is zero, \<open>xlogy(x, y)\<close> is zero for every \<open>y\<close>, and so is \<open>xlog1py(x, y)\<close>:
  also at \<open>y = 0\<close> and \<open>y < 0\<close> (at \<open>y \<le> -1\<close> for \<open>xlog1py\<close>), where the unguarded
  product of zero with the logarithm is not a number.
\<close>

theorem C9_xlogy_zero_guard:
  "xlogy (Finite 0) y = Finite 0
   \<and> xlog1py (Finite 0) y = Finite 0
   \<and> (r \<le> 0 \<longrightarrow> xlogy (Finite 0) (Finite r) = Finite 0 \<and> fmul (Finite 0) (flog (Finite r)) = NaN)
   \<and> (r \<le> - 1 \<longrightarrow> xlog1py (Finite 0) (Finite r) = Finite 0
         \<and> fmul (Finite 0) (flog1p (Finite r)) = NaN)"
  by (simp add: xlogy_def xlog1py_def)

theorem C9_xlogy_zero_guard_witness:
  "xlogy (Finite 0) (Finite 0) = Finite 0 \<and> fmul (Finite 0) (flog (Finite 0)) = NaN
   \<and> xlog1py (Finite 0) (Finite (- 1)) = Finite 0
   \<and> fmul (Finite 0) (flog1p (Finite (- 1))) = NaN"
  using C9_xlogy_zero_guard [of "Finite 0" 0] C9_xlogy_zero_guard [of "Finite 0" "- 1"]
  by simp

text \<open>The value vectors of \<^verbatim>\<open>test_xlogy\<close> and \<^verbatim>\<open>test_xlog1py\<close>, and of the specification.\<close>

lemma test_xlogy:
  "map (xlogy (Finite 1)) [Finite 1, Finite 2, Finite 3] = [Finite 0, Finite (ln 2), Finite (ln 3)]"
  "map (xlogy (Finite 0)) [Finite 0, Finite 0] = [Finite 0, Finite 0]"
  "map (xlogy (Finite 0)) [Finite 1, Finite 2] = [Finite 0, Finite 0]"
  by (simp_all add: xlogy_def)

lemma test_xlog1py:
  "map (xlog1py (Finite 1)) [Finite 0, Finite 1, Finite 2] = [Finite 0, Finite (ln 2), Finite (ln 3)]"
  "map (xlog1py (Finite 0)) [Finite (- 1), Finite (- 1)] = [Finite 0, Finite 0]"
  "map (xlog1py (Finite 1)) [Finite (- 1), Finite 0, Finite 1] = [NegInf, Finite 0, Finite (ln 2)]"
  by (simp_all add: xlog1py_def)

end
